theory Spec2Isabelle
  imports Main "HOL-Library.Sublist"
begin

section \<open>Values and exceptions\<close>

text \<open>
  Decoded JSON, as the backend SDK hands an error body to the adapter and as a caller
  hands raw fields to a pydantic model. A Python \<open>dict\<close> is \<open>JObj\<close> (looked up with
  \<open>map_of\<close>), \<open>None\<close> is \<open>JNull\<close>.
\<close>

datatype jvalue =
    JNull
  | JBool bool
  | JInt int
  | JStr string
  | JList "jvalue list"
  | JObj "(string \<times> jvalue) list"

text \<open>
  The exceptions that can leave the modelled functions. \<open>ValueError msg payload cause\<close>
  is \<open>ValueError(msg)\<close> or \<open>ValueError(msg, payload)\<close>, with the exception named after
  \<open>from\<close> as its cause. \<open>BadRequestError body\<close> is \<open>groq.BadRequestError\<close> with its
  \<open>body\<close> attribute, which the SDK declares as \<open>object | None\<close>: the decoded JSON of the
  response, or its raw text. \<open>AttributeError ty attr\<close> is what Python raises for
  \<open>x.attr\<close> when \<open>x\<close> is of type \<open>ty\<close> and has no such attribute.
  \<open>ValidationError\<close> is pydantic's, raised when a model rejects its input.
  \<open>UserWarning msg\<close> is the warning of \<open>warnings.warn(msg)\<close>, raised as an exception
  when the warning filter says so.
  \<open>OtherError\<close> stands for every exception the modelled code neither raises nor
  catches itself.
\<close>

datatype exn =
    NotImplementedError
  | ValueError string "jvalue option" "exn option"
  | BadRequestError jvalue
  | AttributeError string string
  | ValidationError
  | UserWarning string
  | OtherError string

section \<open>The Groq inference adapter\<close>

text \<open>\<open>GroqConfig\<close> (its module is not among the sources): the optional static key.\<close>

record GroqConfig =
  api_key :: "string option"

text \<open>The per-request provider data: the optional key of the request header.\<close>

record GroqProviderData =
  groq_api_key :: "string option"

text \<open>The SDK's client, \<open>Groq(api_key=k)\<close>, as the key it was built from.\<close>

datatype Groq = Groq (client_api_key: string)

definition missing_key_message :: string where
  "missing_key_message =
     ''Pass Groq API Key in the header X-LlamaStack-Provider-Data as { \"groq_api_key\": \"<your api key>\" }''"

text \<open>
  \<open>GroqInferenceAdapter._get_client\<close>. The first argument is \<open>self._config\<close>, the second
  what \<open>self.get_request_provider_data()\<close> returns when it is called. The test
  \<open>not provider_data.groq_api_key\<close> is true of \<open>None\<close> and of the empty string.
\<close>

definition get_client :: "GroqConfig \<Rightarrow> GroqProviderData option \<Rightarrow> exn + Groq" where
  "get_client cfg provider_data =
     (case api_key cfg of
        Some k \<Rightarrow> Inr (Groq k)
      | None \<Rightarrow>
          (case provider_data of
             None \<Rightarrow> Inl (ValueError missing_key_message None None)
           | Some pd \<Rightarrow>
               (case groq_api_key pd of
                  None \<Rightarrow> Inl (ValueError missing_key_message None None)
                | Some k \<Rightarrow>
                    if k = [] then Inl (ValueError missing_key_message None None)
                    else Inr (Groq k))))"

text \<open>
  \<open>GroqInferenceAdapter.completion\<close> and \<open>GroqInferenceAdapter.embeddings\<close>: both bodies
  are a single \<open>raise NotImplementedError()\<close>.
\<close>

definition completion ::
  "GroqConfig \<Rightarrow> string \<Rightarrow> 'content \<Rightarrow> 'sp option \<Rightarrow> 'rf option \<Rightarrow> bool option \<Rightarrow> 'lp option
     \<Rightarrow> exn + 'r" where
  "completion self model_id content sampling_params response_format stream logprobs =
     Inl NotImplementedError"

definition embeddings ::
  "GroqConfig \<Rightarrow> string \<Rightarrow> 'content list \<Rightarrow> 'trunc option \<Rightarrow> int option \<Rightarrow> 'task option
     \<Rightarrow> exn + 'r" where
  "embeddings self model_id contents text_truncation output_dimension task_type =
     Inl NotImplementedError"

text \<open>
  \<open>ChatCompletionRequest\<close>, with the eight fields the adapter passes to its constructor.
  The types of messages, sampling parameters, response format, tools, logprobs
  configuration and tool configuration are declared outside the sources and only passed
  through: they are type parameters.
\<close>

record ('msg, 'sp, 'rf, 'tool, 'lp, 'tcfg) ChatCompletionRequest =
  model :: string
  messages :: "'msg list"
  sampling_params :: "'sp option"
  response_format :: "'rf option"
  tools :: "'tool list option"
  stream :: "bool option"
  logprobs :: "'lp option"
  tool_config :: "'tcfg option"

text \<open>
  \<open>warnings.warn(message)\<close> of the standard library, by the action of the filter that
  matches: \<open>error\<close> raises the warning, \<open>ignore\<close> drops it, and every other action
  (\<open>default\<close>, \<open>always\<close>, \<open>module\<close>, \<open>once\<close>) shows it or, for a repeated warning,
  drops it. The result is the list of warnings shown and the exception raised, if any.
\<close>

datatype warning_action = action_error | action_ignore | action_show

fun warnings_warn :: "warning_action \<Rightarrow> string \<Rightarrow> string list \<times> exn option" where
  "warnings_warn action_error message = ([], Some (UserWarning message))"
| "warnings_warn action_ignore message = ([], None)"
| "warnings_warn action_show message = ([message], None)"

text \<open>
  What \<open>chat_completion\<close> calls and the sources do not hold: the model registry's
  \<open>get_provider_model_id\<close> (the spec: resolution fails with an error when the id is
  unknown), the provider data of the request, the three converters of \<open>groq_utils\<close>, and
  the SDK's \<open>client.chat.completions.create\<close>. Each may raise. \<open>warning_filter\<close> is
  the action that the warning filters of the process give for a message.
\<close>

record ('req, 'greq, 'gresp, 'resp, 'chunks) externals =
  get_provider_model_id :: "string \<Rightarrow> exn + string"
  warning_filter :: "string \<Rightarrow> warning_action"
  get_request_provider_data :: "GroqProviderData option"
  convert_chat_completion_request :: "'req \<Rightarrow> exn + 'greq"
  chat_completions_create :: "Groq \<Rightarrow> 'greq \<Rightarrow> exn + 'gresp"
  convert_chat_completion_response :: "'gresp \<Rightarrow> exn + 'resp"
  convert_chat_completion_response_stream :: "'gresp \<Rightarrow> exn + 'chunks"

text \<open>What \<open>chat_completion\<close> returns: a response, or the stream of chunks.\<close>

datatype ('resp, 'chunks) chat_completion_result =
    Response 'resp
  | ResponseStream 'chunks

text \<open>The name of a Python value's type, as an \<open>AttributeError\<close> reports it.\<close>

fun type_name :: "jvalue \<Rightarrow> string" where
  "type_name JNull = ''NoneType''"
| "type_name (JBool _) = ''bool''"
| "type_name (JInt _) = ''int''"
| "type_name (JStr _) = ''str''"
| "type_name (JList _) = ''list''"
| "type_name (JObj _) = ''dict''"

text \<open>
  \<open>x.get(k, d)\<close>: the lookup of a \<open>dict\<close>; every other value has no attribute \<open>get\<close>.
\<close>

fun py_get :: "jvalue \<Rightarrow> string \<Rightarrow> jvalue \<Rightarrow> exn + jvalue" where
  "py_get (JObj kvs) k d = Inr (case map_of kvs k of None \<Rightarrow> d | Some v \<Rightarrow> v)"
| "py_get x k d = Inl (AttributeError (type_name x) ''get'')"

text \<open>
  The handler \<open>except groq.BadRequestError as e\<close> of \<open>chat_completion\<close>, as the exception
  that leaves it: \<open>e.body.get("error", {}).get("code") == "tool_use_failed"\<close> decides
  between the \<open>ValueError\<close> raised \<open>from e\<close> and \<open>raise e\<close>.
\<close>

definition on_bad_request :: "jvalue \<Rightarrow> exn" where
  "on_bad_request body =
     (case py_get body ''error'' (JObj []) of
        Inl a \<Rightarrow> a
      | Inr err \<Rightarrow>
          (case py_get err ''code'' JNull of
             Inl a \<Rightarrow> a
           | Inr code \<Rightarrow>
               if code = JStr ''tool_use_failed''
               then ValueError ''Groq failed to call a tool'' (Some err)
                      (Some (BadRequestError body))
               else BadRequestError body))"

definition preview_warning :: string where
  "preview_warning =
     ''Groq only contains a preview version for llama-3.2-3b-instruct. '' @
     ''Preview models aren't recommended for production use. '' @
     ''They can be discontinued on short notice.'' @
     ''More details: https://console.groq.com/docs/models''"

text \<open>
  The \<open>try\<close> statement of \<open>chat_completion\<close>: the client, then the backend call.
  A \<open>ValueError\<close> of \<open>_get_client\<close> is raised inside the \<open>try\<close> and is not a
  \<open>BadRequestError\<close>, so it leaves unchanged.
\<close>

definition create_response ::
  "GroqConfig \<Rightarrow> ('req, 'greq, 'gresp, 'resp, 'chunks) externals \<Rightarrow> 'greq \<Rightarrow> exn + 'gresp" where
  "create_response self ext request =
     (case get_client self (get_request_provider_data ext) of
        Inl e \<Rightarrow> Inl e
      | Inr client \<Rightarrow>
          (case chat_completions_create ext client request of
             Inr response \<Rightarrow> Inr response
           | Inl (BadRequestError body) \<Rightarrow> Inl (on_bad_request body)
           | Inl e \<Rightarrow> Inl e))"

text \<open>
  \<open>GroqInferenceAdapter.chat_completion\<close>. The result is the list of warnings shown
  and what the call raises or returns. A warning that the filter raises ends the call
  there, before the request is built. \<open>tool_choice\<close> and \<open>tool_prompt_format\<close> are
  parameters of the method that its body never reads.
\<close>

definition chat_completion ::
  "GroqConfig
   \<Rightarrow> (('msg, 'sp, 'rf, 'tool, 'lp, 'tcfg) ChatCompletionRequest, 'greq, 'gresp, 'resp, 'chunks) externals
   \<Rightarrow> string \<Rightarrow> 'msg list \<Rightarrow> 'sp option \<Rightarrow> 'rf option \<Rightarrow> 'tool list option
   \<Rightarrow> 'tc option \<Rightarrow> 'tpf option \<Rightarrow> bool option \<Rightarrow> 'lp option \<Rightarrow> 'tcfg option
   \<Rightarrow> string list \<times> (exn + ('resp, 'chunks) chat_completion_result)" where
  "chat_completion self ext model_id msgs sampling response_fmt tool_defs tool_choice
       tool_prompt_format streaming logprobs_cfg tool_cfg =
     (case get_provider_model_id ext model_id of
        Inl e \<Rightarrow> ([], Inl e)
      | Inr provider_model_id \<Rightarrow>
          (case (if provider_model_id = ''llama-3.2-3b-preview''
                 then warnings_warn (warning_filter ext preview_warning) preview_warning
                 else ([], None)) of
             (shown, Some w) \<Rightarrow> (shown, Inl w)
           | (shown, None) \<Rightarrow>
               (shown,
                case convert_chat_completion_request ext
                       \<lparr>model = provider_model_id, messages = msgs, sampling_params = sampling,
                        response_format = response_fmt, tools = tool_defs, stream = streaming,
                        logprobs = logprobs_cfg, tool_config = tool_cfg\<rparr> of
                  Inl e \<Rightarrow> Inl e
                | Inr request \<Rightarrow>
                    (case create_response self ext request of
                       Inl e \<Rightarrow> Inl e
                     | Inr response \<Rightarrow>
                         if streaming = Some True
                         then map_sum id ResponseStream
                                (convert_chat_completion_response_stream ext response)
                         else map_sum id Response
                                (convert_chat_completion_response ext response)))))"

section \<open>The RAG tool's data model\<close>

text \<open>\<open>RAGQueryResult\<close>: the content is optional, \<open>None\<close> when the argument is omitted.\<close>

record RAGQueryResult =
  content :: "string option"

definition RAGQueryResult_init :: "string option \<Rightarrow> RAGQueryResult" where
  "RAGQueryResult_init c = \<lparr>content = c\<rparr>"

text \<open>The enumeration \<open>RAGQueryGenerator\<close> and the string value of each member.\<close>

datatype RAGQueryGenerator = generator_default | generator_llm | generator_custom

fun RAGQueryGenerator_value :: "RAGQueryGenerator \<Rightarrow> string" where
  "RAGQueryGenerator_value generator_default = ''default''"
| "RAGQueryGenerator_value generator_llm = ''llm''"
| "RAGQueryGenerator_value generator_custom = ''custom''"

text \<open>
  The two configuration classes. The field \<open>type\<close> of each is a \<open>Literal\<close> of one
  string, so it is the constructor of the union below and not a field here.
\<close>

record DefaultRAGQueryGeneratorConfig =
  separator :: string

record LLMRAGQueryGeneratorConfig =
  model :: string
  template :: string

text \<open>
  \<open>RAGQueryGeneratorConfig\<close>: the union of the two classes, discriminated by \<open>type\<close>.
\<close>

datatype RAGQueryGeneratorConfig =
    Default DefaultRAGQueryGeneratorConfig
  | LLM LLMRAGQueryGeneratorConfig

fun generator_type :: "RAGQueryGeneratorConfig \<Rightarrow> string" where
  "generator_type (Default _) = ''default''"
| "generator_type (LLM _) = ''llm''"

text \<open>
  A \<open>str\<close> field of a pydantic model, read from the raw fields: the default when the key
  is absent (an error when there is none), the string when the value is one, an error
  otherwise.
\<close>

fun str_field :: "(string \<times> jvalue) list \<Rightarrow> string \<Rightarrow> string option \<Rightarrow> exn + string" where
  "str_field kvs k dflt =
     (case map_of kvs k of
        None \<Rightarrow> (case dflt of None \<Rightarrow> Inl ValidationError | Some d \<Rightarrow> Inr d)
      | Some (JStr s) \<Rightarrow> Inr s
      | Some _ \<Rightarrow> Inl ValidationError)"

text \<open>
  A field \<open>type: Literal[tag] = tag\<close>: the key may be absent, and a value given for it
  must be the tag.
\<close>

definition literal_field :: "(string \<times> jvalue) list \<Rightarrow> string \<Rightarrow> string \<Rightarrow> exn + unit" where
  "literal_field kvs k tag =
     (case map_of kvs k of
        None \<Rightarrow> Inr ()
      | Some v \<Rightarrow> if v = JStr tag then Inr () else Inl ValidationError)"

text \<open>
  The two classes, validated from raw fields: \<open>type\<close> is checked against the literal of
  the class, then the other fields are read.
\<close>

definition DefaultRAGQueryGeneratorConfig_validate ::
  "(string \<times> jvalue) list \<Rightarrow> exn + DefaultRAGQueryGeneratorConfig" where
  "DefaultRAGQueryGeneratorConfig_validate kvs =
     (case literal_field kvs ''type'' ''default'' of
        Inl e \<Rightarrow> Inl e
      | Inr _ \<Rightarrow>
          (case str_field kvs ''separator'' (Some '' '') of
             Inl e \<Rightarrow> Inl e
           | Inr s \<Rightarrow> Inr \<lparr>separator = s\<rparr>))"

definition LLMRAGQueryGeneratorConfig_validate ::
  "(string \<times> jvalue) list \<Rightarrow> exn + LLMRAGQueryGeneratorConfig" where
  "LLMRAGQueryGeneratorConfig_validate kvs =
     (case literal_field kvs ''type'' ''llm'' of
        Inl e \<Rightarrow> Inl e
      | Inr _ \<Rightarrow>
          (case str_field kvs ''model'' None of
             Inl e \<Rightarrow> Inl e
           | Inr m \<Rightarrow>
               (case str_field kvs ''template'' None of
                  Inl e \<Rightarrow> Inl e
                | Inr t \<Rightarrow> Inr \<lparr>model = m, template = t\<rparr>)))"

text \<open>
  Validation of a raw value against the discriminated union
  \<open>Annotated[Union[DefaultRAGQueryGeneratorConfig, LLMRAGQueryGeneratorConfig],
  Field(discriminator="type")]\<close>: the value of the key \<open>type\<close> selects the class, and a
  tag that names none of the union's members is an error.
\<close>

fun RAGQueryGeneratorConfig_validate :: "jvalue \<Rightarrow> exn + RAGQueryGeneratorConfig" where
  "RAGQueryGeneratorConfig_validate (JObj kvs) =
     (case map_of kvs ''type'' of
        None \<Rightarrow> Inl ValidationError
      | Some (JStr t) \<Rightarrow>
          if t = ''default'' then map_sum id Default (DefaultRAGQueryGeneratorConfig_validate kvs)
          else if t = ''llm'' then map_sum id LLM (LLMRAGQueryGeneratorConfig_validate kvs)
          else Inl ValidationError
      | Some _ \<Rightarrow> Inl ValidationError)"
| "RAGQueryGeneratorConfig_validate _ = Inl ValidationError"

text \<open>
  \<open>RAGQueryConfig\<close> and its construction from keyword arguments, each of which may be
  omitted: the generator configuration as a raw value, the two bounds as integers. The
  two \<open>int\<close> fields carry no constraint and no validator.
\<close>

record RAGQueryConfig =
  query_generator_config :: RAGQueryGeneratorConfig
  max_tokens_in_context :: int
  max_chunks :: int

definition RAGQueryConfig_init ::
  "jvalue option \<Rightarrow> int option \<Rightarrow> int option \<Rightarrow> exn + RAGQueryConfig" where
  "RAGQueryConfig_init generator_arg tokens_arg chunks_arg =
     (case (case generator_arg of
              None \<Rightarrow> Inr (Default \<lparr>separator = '' ''\<rparr>)
            | Some raw \<Rightarrow> RAGQueryGeneratorConfig_validate raw) of
        Inl e \<Rightarrow> Inl e
      | Inr g \<Rightarrow>
          Inr \<lparr>query_generator_config = g,
               max_tokens_in_context = (case tokens_arg of None \<Rightarrow> 4096 | Some n \<Rightarrow> n),
               max_chunks = (case chunks_arg of None \<Rightarrow> 5 | Some n \<Rightarrow> n)\<rparr>)"

section \<open>The retrieval assembler\<close>

text \<open>
  The sources hold the signature of \<open>RAGToolRuntime.query\<close> only (a protocol method
  whose body is \<open>...\<close>); the assembler behind it is described by the spec.
\<close>

text \<open>
  Modelled from the spec: a scored content chunk of the Retrieval Assembler, missing from
  the sources: its text and its estimated length in tokens (the list is already in
  relevance order, so the score is not kept).
\<close>

record chunk =
  chunk_text :: string
  chunk_tokens :: int

text \<open>
  Modelled from the spec: the greedy selection of the Retrieval Assembler, whose code is
  missing from the sources. Chunks are visited in relevance order; a chunk is accepted
  when the running token total stays within \<open>max_tokens_in_context\<close> and fewer than
  \<open>max_chunks\<close> chunks are accepted so far, and skipped otherwise, the scan going on.
\<close>

fun accept_chunks :: "int \<Rightarrow> int \<Rightarrow> int \<Rightarrow> int \<Rightarrow> chunk list \<Rightarrow> chunk list" where
  "accept_chunks max_tokens max_count used taken [] = []"
| "accept_chunks max_tokens max_count used taken (c # cs) =
     (if used + chunk_tokens c \<le> max_tokens \<and> taken < max_count
      then c # accept_chunks max_tokens max_count (used + chunk_tokens c) (taken + 1) cs
      else accept_chunks max_tokens max_count used taken cs)"

text \<open>
  Modelled from the spec: the concatenation of the accepted texts with a separator
  between two neighbours, missing from the sources.
\<close>

fun join :: "string \<Rightarrow> string list \<Rightarrow> string" where
  "join sep [] = []"
| "join sep [x] = x"
| "join sep (x # y # ys) = x @ sep @ join sep (y # ys)"

text \<open>
  Modelled from the spec: the assembly of the accepted chunks, whose code is missing from
  the sources. The accepted texts are joined in relevance order, with the configured
  separator when the generator is the \<open>default\<close> one (the spec names no separator for
  the other generator: it is the parameter \<open>other_separator\<close>); when no chunk is
  accepted the content is absent.
\<close>

definition assemble :: "string \<Rightarrow> RAGQueryConfig \<Rightarrow> chunk list \<Rightarrow> RAGQueryResult" where
  "assemble other_separator cfg chunks =
     (let accepted = accept_chunks (max_tokens_in_context cfg) (max_chunks cfg) 0 0 chunks
      in if accepted = [] then RAGQueryResult_init None
         else RAGQueryResult_init
                (Some (join (case query_generator_config cfg of
                               Default d \<Rightarrow> separator d
                             | LLM _ \<Rightarrow> other_separator)
                        (map chunk_text accepted))))"


section \<open>The streaming tool-call parser\<close>

text \<open>
  \<open>chat_completion\<close> hands a streamed backend response to
  \<open>convert_chat_completion_response_stream\<close> of \<open>groq_utils\<close>, which is not among the
  sources; the parser behind it is described by the spec.
\<close>

text \<open>
  Modelled from the spec: the two values of the tool-prompt format, whose declaration is
  missing from the sources.
\<close>

datatype ToolPromptFormat = json | python_list

text \<open>
  Modelled from the spec: a tool call, whose declaration is missing from the sources: the
  name of the tool and the mapping of its arguments.
\<close>

record ToolCall =
  tool_name :: string
  arguments :: "(string \<times> jvalue) list"

text \<open>Modelled from the spec: the three parse modes, missing from the sources.\<close>

datatype parse_mode = scanning | inside_candidate | emit_pending

text \<open>
  Modelled from the spec: the classified events of the parser, missing from the sources.
  A tool-call event carries the raw text it was read from, so that every event has the
  span of the backend's output it accounts for.
\<close>

datatype stream_event =
    text_event string
  | tool_call_succeeded ToolCall string
  | tool_call_failed string

text \<open>
  Modelled from the spec: the raw span of an event, missing from the sources: the text
  of a text event, the raw text of a tool call.
\<close>

fun raw_span :: "stream_event \<Rightarrow> string" where
  "raw_span (text_event s) = s"
| "raw_span (tool_call_succeeded tc s) = s"
| "raw_span (tool_call_failed s) = s"

text \<open>
  Modelled from the spec: the configuration of the Streaming Tool-Call Parser, whose code
  is missing from the sources. The spec fixes neither the marker that starts a candidate
  in each format, nor the test for a complete unit, nor the hard size bound, nor the
  structural parse of a unit into a tool call: they are fields here, and what is proved
  of the parser holds for every choice of them.
\<close>

record parser_config =
  tools_offered :: bool
  tool_prompt_format :: ToolPromptFormat
  candidate_start :: "ToolPromptFormat \<Rightarrow> string"
  candidate_complete :: "ToolPromptFormat \<Rightarrow> string \<Rightarrow> bool"
  size_bound :: nat
  parse_tool_call :: "ToolPromptFormat \<Rightarrow> string \<Rightarrow> ToolCall option"

text \<open>
  Modelled from the spec: the state of the parser, missing from the sources. The buffer
  is the raw text not yet classified: while scanning, the end of the text read so far
  that may still be the beginning of a marker; inside a candidate, the candidate.
\<close>

record parser_state =
  mode :: parse_mode
  buffer :: string

text \<open>
  Modelled from the spec: the state before the first delta, missing from the sources:
  scanning, with nothing buffered.
\<close>

definition initial_state :: parser_state where
  "initial_state = \<lparr>mode = scanning, buffer = []\<rparr>"

text \<open>
  Modelled from the spec: how much scanned text is held back, missing from the sources.
  The text is split into what can be emitted and the longest end of it that is a
  beginning of the marker ("never held back beyond what is needed to detect a marker
  that could span a chunk boundary").
\<close>

fun hold_back :: "string \<Rightarrow> string \<Rightarrow> string \<times> string" where
  "hold_back marker [] = ([], [])"
| "hold_back marker (c # cs) =
     (if prefix (c # cs) marker then ([], c # cs)
      else (case hold_back marker cs of (e, h) \<Rightarrow> (c # e, h)))"

text \<open>
  Modelled from the spec: the emission of plain text, missing from the sources: one text
  event, and none for the empty text.
\<close>

definition emit_text :: "string \<Rightarrow> stream_event list" where
  "emit_text s = (if s = [] then [] else [text_event s])"

text \<open>
  Modelled from the spec: the event for a candidate that is finished, missing from the
  sources. A complete unit that parses is a succeeded tool call; a complete unit that
  does not parse, and a candidate cut off by the size bound or by the end of the stream,
  is a failed one carrying the buffer verbatim.
\<close>

definition classify :: "parser_config \<Rightarrow> string \<Rightarrow> stream_event" where
  "classify cfg b =
     (if candidate_complete cfg (tool_prompt_format cfg) b
      then (case parse_tool_call cfg (tool_prompt_format cfg) b of
              Some tc \<Rightarrow> tool_call_succeeded tc b
            | None \<Rightarrow> tool_call_failed b)
      else tool_call_failed b)"

text \<open>
  Modelled from the spec: one character read while scanning, missing from the sources.
  \<open>pending\<close> is the plain text of the current delta not yet emitted. When the marker
  is complete the pending text is emitted and the candidate begins with the marker.
\<close>

definition scan_char ::
  "parser_config \<Rightarrow> string \<Rightarrow> string \<Rightarrow> char \<Rightarrow> stream_event list \<times> parser_state \<times> string" where
  "scan_char cfg held pending c =
     (if held @ [c] = candidate_start cfg (tool_prompt_format cfg)
      then (emit_text pending, \<lparr>mode = inside_candidate, buffer = held @ [c]\<rparr>, [])
      else (case hold_back (candidate_start cfg (tool_prompt_format cfg)) (held @ [c]) of
              (e, h) \<Rightarrow> ([], \<lparr>mode = scanning, buffer = h\<rparr>, pending @ e)))"

text \<open>
  Modelled from the spec: the transition on one character, missing from the sources.
  Inside a candidate the buffer grows until the unit is complete or longer than the
  bound, then its event is emitted and the parser scans again. \<open>emit_pending\<close> is the
  mode of a finished candidate whose event is still owed: the event is emitted first.
\<close>

definition on_char ::
  "parser_config \<Rightarrow> parser_state \<Rightarrow> string \<Rightarrow> char \<Rightarrow> stream_event list \<times> parser_state \<times> string" where
  "on_char cfg st pending c =
     (case mode st of
        scanning \<Rightarrow> scan_char cfg (buffer st) pending c
      | inside_candidate \<Rightarrow>
          if candidate_complete cfg (tool_prompt_format cfg) (buffer st @ [c])
             \<or> size_bound cfg < length (buffer st @ [c])
          then (emit_text pending @ [classify cfg (buffer st @ [c])],
                \<lparr>mode = scanning, buffer = []\<rparr>, [])
          else ([], \<lparr>mode = inside_candidate, buffer = buffer st @ [c]\<rparr>, pending)
      | emit_pending \<Rightarrow>
          (case scan_char cfg [] [] c of
             (evs, st', pending') \<Rightarrow>
               (emit_text pending @ classify cfg (buffer st) # evs, st', pending')))"

text \<open>
  Modelled from the spec: the characters of one delta, missing from the sources. At the
  end of the delta the pending plain text is emitted.
\<close>

fun feed ::
  "parser_config \<Rightarrow> parser_state \<Rightarrow> string \<Rightarrow> string \<Rightarrow> stream_event list \<times> parser_state" where
  "feed cfg st pending [] = (emit_text pending, st)"
| "feed cfg st pending (c # cs) =
     (case on_char cfg st pending c of
        (evs, st', pending') \<Rightarrow>
          (case feed cfg st' pending' cs of
             (evs', st'') \<Rightarrow> (evs @ evs', st'')))"

text \<open>
  Modelled from the spec: one delta, missing from the sources. When no tools were
  offered the delta is a text event and nothing is scanned.
\<close>

definition process_delta ::
  "parser_config \<Rightarrow> parser_state \<Rightarrow> string \<Rightarrow> stream_event list \<times> parser_state" where
  "process_delta cfg st delta =
     (if \<not> tools_offered cfg then (emit_text delta, st) else feed cfg st [] delta)"

text \<open>
  Modelled from the spec: the end of the stream, missing from the sources. An
  unterminated candidate is flushed as a failed tool call; text held back while scanning
  is emitted as text.
\<close>

definition flush :: "parser_config \<Rightarrow> parser_state \<Rightarrow> stream_event list" where
  "flush cfg st =
     (case mode st of
        scanning \<Rightarrow> emit_text (buffer st)
      | inside_candidate \<Rightarrow> [tool_call_failed (buffer st)]
      | emit_pending \<Rightarrow> [classify cfg (buffer st)])"

text \<open>
  Modelled from the spec: the deltas of a stream read in order, missing from the sources:
  the events emitted while the deltas are read, and the state after them.
\<close>

fun feed_deltas ::
  "parser_config \<Rightarrow> parser_state \<Rightarrow> string list \<Rightarrow> stream_event list \<times> parser_state" where
  "feed_deltas cfg st [] = ([], st)"
| "feed_deltas cfg st (d # ds) =
     (case process_delta cfg st d of
        (evs, st') \<Rightarrow>
          (case feed_deltas cfg st' ds of
             (evs', st'') \<Rightarrow> (evs @ evs', st'')))"

text \<open>
  Modelled from the spec: the parser over a whole stream, missing from the sources: the
  events of the deltas, then those of the end of the stream.
\<close>

definition parse_stream :: "parser_config \<Rightarrow> string list \<Rightarrow> stream_event list" where
  "parse_stream cfg deltas =
     (case feed_deltas cfg initial_state deltas of
        (evs, st) \<Rightarrow> evs @ flush cfg st)"

text \<open>
  Modelled from the spec: the brackets of each format ("balanced brackets/braces per the
  configured format"), missing from the sources: braces for \<open>json\<close>, square brackets for
  \<open>python_list\<close>.
\<close>

fun open_bracket :: "ToolPromptFormat \<Rightarrow> char" where
  "open_bracket json = CHR ''{''"
| "open_bracket python_list = CHR ''[''"

fun close_bracket :: "ToolPromptFormat \<Rightarrow> char" where
  "close_bracket json = CHR ''}''"
| "close_bracket python_list = CHR '']''"

text \<open>
  Modelled from the spec: the bracket grammar, missing from the sources: a candidate
  starts at the opening bracket of the format, and is complete when it has as many
  closing brackets as opening ones.
\<close>

definition bracket_start :: "ToolPromptFormat \<Rightarrow> string" where
  "bracket_start fmt = [open_bracket fmt]"

definition balanced :: "ToolPromptFormat \<Rightarrow> string \<Rightarrow> bool" where
  "balanced fmt b = (count_list b (open_bracket fmt) = count_list b (close_bracket fmt))"

section \<open>Concrete inputs\<close>

text \<open>
  A configuration with a static key, and a world around the adapter: every model id
  resolves to \<open>provider_id\<close>, warnings are shown, no provider data comes with the
  request, the converters pass their argument on, and \<open>backend\<close> answers the call to the
  SDK.
\<close>

definition demo_config :: GroqConfig where
  "demo_config = \<lparr>api_key = Some ''gsk_static''\<rparr>"

definition demo_externals ::
  "string \<Rightarrow> (Groq \<Rightarrow> (unit, unit, unit, unit, unit, unit) ChatCompletionRequest \<Rightarrow> exn + string)
     \<Rightarrow> ((unit, unit, unit, unit, unit, unit) ChatCompletionRequest,
         (unit, unit, unit, unit, unit, unit) ChatCompletionRequest, string, string, string list)
        externals" where
  "demo_externals provider_id backend =
     \<lparr>get_provider_model_id = (\<lambda>m. Inr provider_id),
      warning_filter = (\<lambda>m. action_show),
      get_request_provider_data = None,
      convert_chat_completion_request = Inr,
      chat_completions_create = backend,
      convert_chat_completion_response = Inr,
      convert_chat_completion_response_stream = (\<lambda>r. Inr [r])\<rparr>"

text \<open>
  The spec's scenario for the parser: the \<open>python_list\<close> format with the bracket grammar,
  a structural parse that knows the one call of the scenario, and its four deltas.
\<close>

definition demo_parse :: "ToolPromptFormat \<Rightarrow> string \<Rightarrow> ToolCall option" where
  "demo_parse fmt s =
     (if s = ''[get_weather(location='SF')]''
      then Some \<lparr>tool_name = ''get_weather'', arguments = [(''location'', JStr ''SF'')]\<rparr>
      else None)"

definition demo_parser :: parser_config where
  "demo_parser =
     \<lparr>tools_offered = True, tool_prompt_format = python_list, candidate_start = bracket_start,
      candidate_complete = balanced, size_bound = 4096, parse_tool_call = demo_parse\<rparr>"

definition demo_deltas :: "string list" where
  "demo_deltas = [''I'll check. '', ''[get_weather('', ''location='SF')]'', '' Done.'']"

text \<open>The spec's scenario for the assembler: three ranked chunks of 50, 40 and 30 tokens.\<close>

definition demo_chunks :: "chunk list" where
  "demo_chunks =
     [\<lparr>chunk_text = ''A'', chunk_tokens = 50\<rparr>,
      \<lparr>chunk_text = ''B'', chunk_tokens = 40\<rparr>,
      \<lparr>chunk_text = ''C'', chunk_tokens = 30\<rparr>]"

section \<open>Unsupported operations\<close>

text \<open>
  C3. For every input, \<open>completion\<close> and \<open>embeddings\<close> fail, and always with the same
  error, \<open>NotImplementedError\<close> (the adapter's unsupported-operation error): no input
  yields a result, partial or otherwise.
\<close>

theorem completion_embeddings_unsupported:
  "(completion self model_id body sampling response_fmt streaming logprobs_cfg
      :: exn + 'r) = Inl NotImplementedError
   \<and> (embeddings self model_id' contents text_truncation output_dimension task_type
      :: exn + 'e) = Inl NotImplementedError"
  by (simp add: completion_def embeddings_def)

section \<open>Credentials\<close>




text \<open>
  C9. When the static configuration's \<open>api_key\<close> is set, \<open>_get_client\<close> builds the
  client from that key whatever the provider data of the request is: two calls that
  differ only in the provider data return the same client.
\<close>

theorem get_client_static_key_ignores_provider_data:
  "api_key cfg = Some k \<Longrightarrow>
     get_client cfg provider_data = Inr (Groq k)
     \<and> get_client cfg provider_data = get_client cfg provider_data'"
  by (simp add: get_client_def)

theorem get_client_static_key_ignores_provider_data_witness:
  "get_client demo_config None = Inr (Groq ''gsk_static'')
   \<and> get_client demo_config None = get_client demo_config (Some \<lparr>groq_api_key = Some ''gsk_request''\<rparr>)"
proof -
  have h: "api_key demo_config = Some ''gsk_static''" by (simp add: demo_config_def)
  show ?thesis by (rule get_client_static_key_ignores_provider_data [OF h])
qed

section \<open>Chat completion\<close>

text \<open>
  C10. \<open>tool_choice\<close> and \<open>tool_prompt_format\<close> do not reach the request: two calls of
  \<open>chat_completion\<close> that differ only in these two arguments are the same call, for
  every converter and every backend, so the \<open>ChatCompletionRequest\<close> built and the
  request sent to the backend are identical.
\<close>

theorem chat_completion_ignores_tool_choice:
  "chat_completion self ext model_id msgs sampling response_fmt tool_defs
       choice prompt_fmt streaming logprobs_cfg tool_cfg
   = chat_completion self ext model_id msgs sampling response_fmt tool_defs
       choice' prompt_fmt' streaming logprobs_cfg tool_cfg"
  by (simp add: chat_completion_def)

text \<open>
  With converters that pass the request on and a backend that answers with the model of
  the request it received, the answer shows the request: it is the same for both calls.
\<close>

theorem chat_completion_ignores_tool_choice_witness:
  "chat_completion demo_config
     (demo_externals ''llama3-8b-8192'' (\<lambda>client request. Inr (ChatCompletionRequest.model request)))
     ''meta-llama/Llama-3.1-8B-Instruct'' [] None None None (Some ()) (Some ()) None None None
   = ([], Inr (Response ''llama3-8b-8192''))
   \<and> chat_completion demo_config
     (demo_externals ''llama3-8b-8192'' (\<lambda>client request. Inr (ChatCompletionRequest.model request)))
     ''meta-llama/Llama-3.1-8B-Instruct'' [] None None None (None :: unit option) (None :: unit option)
     None None None
   = ([], Inr (Response ''llama3-8b-8192''))"
  using chat_completion_ignores_tool_choice
          [of demo_config
              "demo_externals ''llama3-8b-8192'' (\<lambda>client request. Inr (ChatCompletionRequest.model request))"
              "''meta-llama/Llama-3.1-8B-Instruct''" "[]" None None None "Some ()" "Some ()"
              None None None "None :: unit option" "None :: unit option"]
  by (simp add: chat_completion_def create_response_def demo_externals_def demo_config_def
        get_client_def)




subsection \<open>Errors of the backend\<close>

text \<open>
  What the handler of \<open>BadRequestError\<close> does when the body is a mapping: the code
  \<open>tool_use_failed\<close> is translated into the \<open>ValueError\<close> that carries the backend's
  error payload and has the original exception as its cause; any other code, and a body
  with no \<open>error\<close> entry, raises the original exception again. An exception that is not
  a \<open>BadRequestError\<close> is not caught.
\<close>

lemma on_bad_request_tool_use_failed:
  "map_of kvs ''error'' = Some (JObj err) \<Longrightarrow> map_of err ''code'' = Some (JStr ''tool_use_failed'') \<Longrightarrow>
   on_bad_request (JObj kvs)
     = ValueError ''Groq failed to call a tool'' (Some (JObj err)) (Some (BadRequestError (JObj kvs)))"
  by (simp add: on_bad_request_def)

lemma on_bad_request_other_code:
  "map_of kvs ''error'' = Some (JObj err) \<Longrightarrow> map_of err ''code'' \<noteq> Some (JStr ''tool_use_failed'') \<Longrightarrow>
   on_bad_request (JObj kvs) = BadRequestError (JObj kvs)"
  by (auto simp: on_bad_request_def split: option.splits)

lemma on_bad_request_no_error_entry:
  "map_of kvs ''error'' = None \<Longrightarrow> on_bad_request (JObj kvs) = BadRequestError (JObj kvs)"
  by (simp add: on_bad_request_def)

lemma create_response_other_error:
  "get_client self (get_request_provider_data ext) = Inr client \<Longrightarrow>
   chat_completions_create ext client request = Inl e \<Longrightarrow> (\<forall>body. e \<noteq> BadRequestError body) \<Longrightarrow>
   create_response self ext request = Inl e"
  by (cases e) (auto simp: create_response_def)

text \<open>
  C2. The handler reads \<open>e.body.get("error", {}).get("code")\<close> before it decides, and the
  body of a \<open>BadRequestError\<close> need not be a mapping: for a response that is not JSON
  it is the raw text. The call that meets the backend error
  \<open>BadRequestError\<close> with the body \<open>"Bad Request"\<close> raises
  \<open>AttributeError\<close> (\<open>'str' object has no attribute 'get'\<close>) in place of the original
  exception, which the claim says propagates unchanged.
\<close>

theorem bad_request_with_text_body:
  "chat_completion demo_config
     (demo_externals ''llama3-8b-8192'' (\<lambda>client request. Inl (BadRequestError (JStr ''Bad Request''))))
     ''meta-llama/Llama-3.1-8B-Instruct'' [] None None None (None :: unit option) (None :: unit option) None None None
   = ([], Inl (AttributeError ''str'' ''get''))"
  by (simp add: chat_completion_def create_response_def demo_externals_def demo_config_def
        get_client_def on_bad_request_def)

section \<open>The RAG query configuration\<close>

text \<open>
  C5, as the code has it. \<open>RAGQueryConfig\<close> checks neither bound: the two fields are
  plain \<open>int\<close>s. Whether the construction fails does not depend on the values given for
  \<open>max_tokens_in_context\<close> and \<open>max_chunks\<close>; with the default generator it succeeds for
  every pair of integers; an accepted configuration holds the integers given, unchanged,
  and the defaults 4096 and 5 for those omitted, so its fields are positive when the
  caller gave positive values or none.
\<close>

theorem RAGQueryConfig_bounds_unchecked:
  "isl (RAGQueryConfig_init generator_arg tokens_arg chunks_arg)
     = isl (RAGQueryConfig_init generator_arg tokens_arg' chunks_arg')
   \<and> (\<exists>cfg'. RAGQueryConfig_init None tokens_arg chunks_arg = Inr cfg')
   \<and> (RAGQueryConfig_init generator_arg tokens_arg chunks_arg = Inr cfg \<longrightarrow>
        max_tokens_in_context cfg = (case tokens_arg of None \<Rightarrow> 4096 | Some n \<Rightarrow> n)
        \<and> max_chunks cfg = (case chunks_arg of None \<Rightarrow> 5 | Some n \<Rightarrow> n))
   \<and> (RAGQueryConfig_init generator_arg None None = Inr cfg \<longrightarrow>
        0 < max_tokens_in_context cfg \<and> 0 < max_chunks cfg)"
  by (auto simp: RAGQueryConfig_init_def split: sum.splits option.splits)

theorem RAGQueryConfig_bounds_unchecked_witness:
  "isl (RAGQueryConfig_init None (Some 0) (Some (- 3))) = isl (RAGQueryConfig_init None None None)
   \<and> (\<exists>cfg'. RAGQueryConfig_init None (Some 0) (Some (- 3)) = Inr cfg')
   \<and> max_tokens_in_context
         \<lparr>query_generator_config = Default \<lparr>separator = '' ''\<rparr>,
          max_tokens_in_context = 0, max_chunks = - 3\<rparr> = 0
   \<and> max_chunks
         \<lparr>query_generator_config = Default \<lparr>separator = '' ''\<rparr>,
          max_tokens_in_context = 0, max_chunks = - 3\<rparr> = - 3"
proof -
  have h: "RAGQueryConfig_init None (Some 0) (Some (- 3))
             = Inr \<lparr>query_generator_config = Default \<lparr>separator = '' ''\<rparr>,
                    max_tokens_in_context = 0, max_chunks = - 3\<rparr>"
    by (simp add: RAGQueryConfig_init_def)
  show ?thesis
    using RAGQueryConfig_bounds_unchecked
            [of None "Some 0" "Some (- 3)" None None
                "\<lparr>query_generator_config = Default \<lparr>separator = '' ''\<rparr>,
                  max_tokens_in_context = 0, max_chunks = - 3\<rparr>"] h
    by simp
qed

text \<open>
  C5 as stated fails: the construction with \<open>max_tokens_in_context = 0\<close> and
  \<open>max_chunks = 0\<close> is accepted, and the accepted configuration holds the two zeros.
\<close>

theorem RAGQueryConfig_accepts_zero_bounds:
  "RAGQueryConfig_init None (Some 0) (Some 0)
     = Inr \<lparr>query_generator_config = Default \<lparr>separator = '' ''\<rparr>,
            max_tokens_in_context = 0, max_chunks = 0\<rparr>"
  by (simp add: RAGQueryConfig_init_def)

text \<open>
  Each class checks its own \<open>type\<close>: the fields of one are rejected by the other.
\<close>

lemma class_validators_check_type:
  "DefaultRAGQueryGeneratorConfig_validate [(''type'', JStr ''llm'')] = Inl ValidationError
   \<and> LLMRAGQueryGeneratorConfig_validate
         [(''type'', JStr ''default''), (''model'', JStr ''m''), (''template'', JStr ''t'')]
       = Inl ValidationError
   \<and> DefaultRAGQueryGeneratorConfig_validate [] = Inr \<lparr>separator = '' ''\<rparr>"
  by (simp add: DefaultRAGQueryGeneratorConfig_validate_def LLMRAGQueryGeneratorConfig_validate_def
        literal_field_def)

text \<open>
  C6, as the code has it. The generator configuration is a closed union of two
  alternatives, \<open>default\<close> and \<open>llm\<close>: a raw value is accepted only when it is a mapping
  whose \<open>type\<close> is one of these two tags, and the result is the alternative of that tag;
  \<open>default\<close> carries the separator string and \<open>llm\<close> the model id and the template; a
  mapping with any other tag, \<open>custom\<close> included, is rejected, by the union and by the
  construction of \<open>RAGQueryConfig\<close>.
\<close>

theorem RAGQueryGeneratorConfig_closed_union:
  "(RAGQueryGeneratorConfig_validate raw = Inr g \<longrightarrow>
      (\<exists>kvs. raw = JObj kvs \<and> map_of kvs ''type'' = Some (JStr (generator_type g)))
      \<and> (generator_type g = ''default'' \<or> generator_type g = ''llm''))
   \<and> (map_of kvs ''type'' = Some (JStr t) \<and> t \<noteq> ''default'' \<and> t \<noteq> ''llm'' \<longrightarrow>
        RAGQueryGeneratorConfig_validate (JObj kvs) = Inl ValidationError
        \<and> RAGQueryConfig_init (Some (JObj kvs)) tokens_arg chunks_arg
            = Inl ValidationError)
   \<and> (map_of kvs1 ''type'' = Some (JStr ''default'') \<and> map_of kvs1 ''separator'' = Some (JStr s) \<longrightarrow>
        RAGQueryGeneratorConfig_validate (JObj kvs1) = Inr (Default \<lparr>separator = s\<rparr>))
   \<and> (map_of kvs2 ''type'' = Some (JStr ''llm'') \<and> map_of kvs2 ''model'' = Some (JStr m)
        \<and> map_of kvs2 ''template'' = Some (JStr tmpl) \<longrightarrow>
        RAGQueryGeneratorConfig_validate (JObj kvs2) = Inr (LLM \<lparr>model = m, template = tmpl\<rparr>))"
proof (intro conjI impI)
  assume a: "RAGQueryGeneratorConfig_validate raw = Inr g"
  then obtain kvs0 where raw: "raw = JObj kvs0"
    by (cases raw) auto
  from a raw show "\<exists>kvs. raw = JObj kvs \<and> map_of kvs ''type'' = Some (JStr (generator_type g))"
    by (auto split: option.splits jvalue.splits if_splits sum.splits
             simp: DefaultRAGQueryGeneratorConfig_validate_def LLMRAGQueryGeneratorConfig_validate_def
                   literal_field_def)
  show "generator_type g = ''default'' \<or> generator_type g = ''llm''"
    by (cases g) auto
next
  assume "map_of kvs ''type'' = Some (JStr t) \<and> t \<noteq> ''default'' \<and> t \<noteq> ''llm''"
  then show "RAGQueryGeneratorConfig_validate (JObj kvs) = Inl ValidationError"
    and "RAGQueryConfig_init (Some (JObj kvs)) tokens_arg chunks_arg
            = Inl ValidationError"
    by (simp_all add: RAGQueryConfig_init_def)
next
  assume "map_of kvs1 ''type'' = Some (JStr ''default'') \<and> map_of kvs1 ''separator'' = Some (JStr s)"
  then show "RAGQueryGeneratorConfig_validate (JObj kvs1) = Inr (Default \<lparr>separator = s\<rparr>)"
    by (simp add: DefaultRAGQueryGeneratorConfig_validate_def literal_field_def)
next
  assume "map_of kvs2 ''type'' = Some (JStr ''llm'') \<and> map_of kvs2 ''model'' = Some (JStr m)
        \<and> map_of kvs2 ''template'' = Some (JStr tmpl)"
  then show "RAGQueryGeneratorConfig_validate (JObj kvs2) = Inr (LLM \<lparr>model = m, template = tmpl\<rparr>)"
    by (simp add: LLMRAGQueryGeneratorConfig_validate_def literal_field_def)
qed

theorem RAGQueryGeneratorConfig_closed_union_witness:
  "RAGQueryGeneratorConfig_validate (JObj [(''type'', JStr ''default''), (''separator'', JStr '', '')])
     = Inr (Default \<lparr>separator = '', ''\<rparr>)
   \<and> RAGQueryGeneratorConfig_validate
       (JObj [(''type'', JStr ''llm''), (''model'', JStr ''m''), (''template'', JStr ''q: {q}'')])
     = Inr (LLM \<lparr>model = ''m'', template = ''q: {q}''\<rparr>)
   \<and> RAGQueryGeneratorConfig_validate (JObj [(''type'', JStr ''other'')])
     = Inl ValidationError
   \<and> RAGQueryConfig_init (Some (JObj [(''type'', JStr ''other'')])) None None
     = Inl ValidationError
   \<and> generator_type (Default \<lparr>separator = '', ''\<rparr>) = ''default''"
  using RAGQueryGeneratorConfig_closed_union
          [of "JObj [(''type'', JStr ''default''), (''separator'', JStr '', '')]"
              "Default \<lparr>separator = '', ''\<rparr>"
              "[(''type'', JStr ''other'')]" "''other''" None None
              "[(''type'', JStr ''default''), (''separator'', JStr '', '')]" "'', ''"
              "[(''type'', JStr ''llm''), (''model'', JStr ''m''), (''template'', JStr ''q: {q}'')]"
              "''m''" "''q: {q}''"]
  by simp

text \<open>
  C6 as stated fails: \<open>custom\<close> is a member of the enumeration \<open>RAGQueryGenerator\<close>, but
  a generator configuration tagged \<open>custom\<close> is rejected.
\<close>

theorem RAGQueryGeneratorConfig_rejects_custom:
  "RAGQueryGenerator_value generator_custom = ''custom''
   \<and> RAGQueryGeneratorConfig_validate (JObj [(''type'', JStr ''custom'')])
       = Inl ValidationError
   \<and> RAGQueryConfig_init (Some (JObj [(''type'', JStr ''custom'')])) None None
       = Inl ValidationError"
  by (simp add: RAGQueryConfig_init_def)

section \<open>The retrieval assembler\<close>

text \<open>
  The spec's scenario: with at most two chunks and 80 tokens, the chunks of 50, 40 and 30
  tokens give the first and the third, joined by the default separator.
\<close>

lemma assemble_scenario:
  "assemble [] \<lparr>query_generator_config = Default \<lparr>separator = '' ''\<rparr>,
                max_tokens_in_context = 80, max_chunks = 2\<rparr> demo_chunks
     = \<lparr>content = Some ''A C''\<rparr>"
  by (simp add: assemble_def demo_chunks_def RAGQueryResult_init_def)



section \<open>The streaming tool-call parser\<close>

text \<open>
  The accounting invariant: what has been read is the spans of the events emitted, then
  the pending text, then the buffer. It holds for one character, for the characters of
  a delta, and for a list of deltas.
\<close>

lemma hold_back_append: "hold_back m t = (e, h) \<Longrightarrow> e @ h = t"
  by (induction t arbitrary: e h) (auto split: if_splits prod.splits)

lemma spans_emit_text: "concat (map raw_span (emit_text s)) = s"
  by (simp add: emit_text_def)

lemma raw_span_classify: "raw_span (classify cfg b) = b"
  by (simp add: classify_def split: option.splits)

lemma scan_char_accounts:
  "scan_char cfg held pending c = (evs, st', pending') \<Longrightarrow>
   concat (map raw_span evs) @ pending' @ buffer st' = pending @ held @ [c]"
  by (auto simp: scan_char_def spans_emit_text split: if_splits prod.splits dest: hold_back_append)

lemma on_char_accounts:
  "on_char cfg st pending c = (evs, st', pending') \<Longrightarrow>
   concat (map raw_span evs) @ pending' @ buffer st' = pending @ buffer st @ [c]"
  by (cases "mode st")
     (auto simp: on_char_def spans_emit_text raw_span_classify
           split: if_splits prod.splits dest: scan_char_accounts)

lemma feed_accounts:
  "feed cfg st pending cs = (evs, st') \<Longrightarrow>
   concat (map raw_span evs) @ buffer st' = pending @ buffer st @ cs"
proof (induction cs arbitrary: st pending evs st')
  case Nil
  then show ?case by (auto simp: spans_emit_text)
next
  case (Cons c cs)
  obtain e1 s1 p1 where oc: "on_char cfg st pending c = (e1, s1, p1)"
    by (cases "on_char cfg st pending c") auto
  obtain e2 s2 where fd: "feed cfg s1 p1 cs = (e2, s2)"
    by (cases "feed cfg s1 p1 cs") auto
  from Cons.prems oc fd have evs: "evs = e1 @ e2" and st': "st' = s2" by auto
  from Cons.IH[OF fd] have "concat (map raw_span e2) @ buffer s2 = p1 @ buffer s1 @ cs" .
  moreover from on_char_accounts[OF oc]
  have "concat (map raw_span e1) @ p1 @ buffer s1 = pending @ buffer st @ [c]" .
  ultimately show ?case unfolding evs st' by simp
qed

lemma process_delta_accounts:
  "process_delta cfg st d = (evs, st') \<Longrightarrow> tools_offered cfg \<or> buffer st = [] \<Longrightarrow>
   concat (map raw_span evs) @ buffer st' = buffer st @ d \<and> (tools_offered cfg \<or> buffer st' = [])"
  by (auto simp: process_delta_def spans_emit_text split: if_splits dest: feed_accounts)

lemma feed_deltas_accounts:
  "feed_deltas cfg st ds = (evs, st') \<Longrightarrow> tools_offered cfg \<or> buffer st = [] \<Longrightarrow>
   concat (map raw_span evs) @ buffer st' = buffer st @ concat ds"
proof (induction ds arbitrary: st evs st')
  case Nil
  then show ?case by simp
next
  case (Cons d ds)
  obtain e1 s1 where pd: "process_delta cfg st d = (e1, s1)"
    by (cases "process_delta cfg st d") auto
  obtain e2 s2 where fd: "feed_deltas cfg s1 ds = (e2, s2)"
    by (cases "feed_deltas cfg s1 ds") auto
  from Cons.prems(1) pd fd have evs: "evs = e1 @ e2" and st': "st' = s2" by auto
  from process_delta_accounts[OF pd Cons.prems(2)]
  have a1: "concat (map raw_span e1) @ buffer s1 = buffer st @ d"
    and inv: "tools_offered cfg \<or> buffer s1 = []" by auto
  from Cons.IH[OF fd inv] have "concat (map raw_span e2) @ buffer s2 = buffer s1 @ concat ds" .
  with a1 show ?case unfolding evs st' by simp
qed

lemma spans_flush: "concat (map raw_span (flush cfg st)) = buffer st"
  by (cases "mode st") (simp_all add: flush_def spans_emit_text raw_span_classify)

lemma feed_deltas_append:
  "feed_deltas cfg st (xs @ ys) =
     (case feed_deltas cfg st xs of
        (e1, s1) \<Rightarrow> (case feed_deltas cfg s1 ys of (e2, s2) \<Rightarrow> (e1 @ e2, s2)))"
  by (induction xs arbitrary: st) (auto split: prod.splits)

lemma feed_deltas_take_prefix:
  "prefix (fst (feed_deltas cfg st (take k ds))) (fst (feed_deltas cfg st ds))"
proof -
  have "feed_deltas cfg st ds = feed_deltas cfg st (take k ds @ drop k ds)" by simp
  also have "\<dots> = (case feed_deltas cfg st (take k ds) of
        (e1, s1) \<Rightarrow> (case feed_deltas cfg s1 (drop k ds) of (e2, s2) \<Rightarrow> (e1 @ e2, s2)))"
    by (rule feed_deltas_append)
  finally show ?thesis by (auto split: prod.splits)
qed

text \<open>
  The spec's scenario: the text before the call, the call (its two deltas joined), the
  text after it.
\<close>

lemma parse_stream_scenario:
  "parse_stream demo_parser demo_deltas =
     [text_event ''I'll check. '',
      tool_call_succeeded \<lparr>tool_name = ''get_weather'', arguments = [(''location'', JStr ''SF'')]\<rparr>
        ''[get_weather(location='SF')]'',
      text_event '' Done.'']"
  by (simp add: parse_stream_def demo_deltas_def demo_parser_def initial_state_def process_delta_def
       on_char_def scan_char_def emit_text_def classify_def flush_def bracket_start_def balanced_def
       demo_parse_def)

text \<open>When no tools were offered every event is a text event, one for each non-empty delta.\<close>

lemma feed_deltas_no_tools:
  "\<not> tools_offered cfg \<Longrightarrow> feed_deltas cfg st ds = (concat (map emit_text ds), st)"
  by (induction ds) (auto simp: process_delta_def)

lemma parse_stream_no_tools:
  "\<not> tools_offered cfg \<Longrightarrow> parse_stream cfg ds = concat (map emit_text ds)"
  by (simp add: parse_stream_def feed_deltas_no_tools flush_def initial_state_def emit_text_def)

lemma parse_stream_no_tools_text_only:
  "\<not> tools_offered cfg \<Longrightarrow> ev \<in> set (parse_stream cfg ds) \<Longrightarrow> \<exists>s. ev = text_event s"
  by (auto simp: parse_stream_no_tools emit_text_def split: if_splits)

text \<open>A stream that ends inside a candidate: one failed tool call with the whole buffer.\<close>

lemma parse_stream_truncated:
  "parse_stream demo_parser [''Wait '', ''[get_weather('', ''location='']
     = [text_event ''Wait '', tool_call_failed ''[get_weather(location='']"
  by (simp add: parse_stream_def demo_parser_def initial_state_def process_delta_def
       on_char_def scan_char_def emit_text_def classify_def flush_def bracket_start_def balanced_def
       demo_parse_def)

text \<open>
  A marker of two characters cut by a delta boundary is found all the same; the beginning
  of a marker at the end of the stream is emitted as text.
\<close>

lemma parse_stream_marker_across_deltas:
  "parse_stream (demo_parser\<lparr>candidate_start := (\<lambda>fmt. ''<|''), candidate_complete := (\<lambda>fmt b. suffix ''|>'' b)\<rparr>)
       [''a <'', ''|f()|'', ''> b <'']
     = [text_event ''a '', tool_call_failed ''<|f()|>'', text_event '' b '', text_event ''<'']"
  by (simp add: parse_stream_def demo_parser_def initial_state_def process_delta_def
       on_char_def scan_char_def emit_text_def classify_def flush_def suffix_def
       demo_parse_def)

text \<open>
  C1. For every configuration of the parser and every list of deltas (so for every way of
  cutting a backend output into deltas), the raw spans of the events of \<open>parse_stream\<close>,
  concatenated in the order of emission, are the backend output: each character is
  accounted for by exactly one event, in source order. The parser is incremental: the
  events emitted after the first \<open>k\<close> deltas are the beginning of the final event list,
  and their spans followed by the buffer are the text of these \<open>k\<close> deltas.
\<close>

theorem parse_stream_lossless:
  "concat (map raw_span (parse_stream cfg deltas)) = concat deltas
   \<and> prefix (fst (feed_deltas cfg initial_state (take k deltas))) (parse_stream cfg deltas)
   \<and> concat (map raw_span (fst (feed_deltas cfg initial_state (take k deltas))))
       @ buffer (snd (feed_deltas cfg initial_state (take k deltas))) = concat (take k deltas)"
proof (intro conjI)
  obtain evs st where fd: "feed_deltas cfg initial_state deltas = (evs, st)"
    by (cases "feed_deltas cfg initial_state deltas") auto
  have init: "tools_offered cfg \<or> buffer initial_state = []" by (simp add: initial_state_def)
  from feed_deltas_accounts[OF fd init]
  have "concat (map raw_span evs) @ buffer st = concat deltas" by (simp add: initial_state_def)
  then show "concat (map raw_span (parse_stream cfg deltas)) = concat deltas"
    by (simp add: parse_stream_def fd spans_flush)
  have "prefix (fst (feed_deltas cfg initial_state (take k deltas))) evs"
    using feed_deltas_take_prefix[of cfg initial_state k deltas] fd by simp
  then show "prefix (fst (feed_deltas cfg initial_state (take k deltas))) (parse_stream cfg deltas)"
    by (simp add: parse_stream_def fd prefix_def) auto
  obtain ek sk where fk: "feed_deltas cfg initial_state (take k deltas) = (ek, sk)"
    by (cases "feed_deltas cfg initial_state (take k deltas)") auto
  from feed_deltas_accounts[OF fk init]
  have "concat (map raw_span ek) @ buffer sk = concat (take k deltas)"
    by (simp add: initial_state_def)
  then show "concat (map raw_span (fst (feed_deltas cfg initial_state (take k deltas))))
       @ buffer (snd (feed_deltas cfg initial_state (take k deltas))) = concat (take k deltas)"
    by (simp add: fk)
qed

theorem parse_stream_lossless_witness:
  "concat (map raw_span (parse_stream demo_parser demo_deltas))
     = ''I'll check. [get_weather(location='SF')] Done.''"
  using parse_stream_lossless [of demo_parser demo_deltas 0] by (simp add: demo_deltas_def)

end
